theory Spec2Isabelle
  imports Complex_Main
begin

section \<open>The cone animation engine (src/src/cone-animation.ts)\<close>

text \<open>
  The engine is the class \<open>ConeAnimation\<close>. Its numbers are JavaScript numbers; they are
  modelled as \<open>real\<close> (no rounding, no NaN, no infinities), except the segment count and
  the triangle indices, which are integral in every call the application makes
  (\<open>parseInt\<close> in App.tsx) and are modelled as \<open>int\<close>. Where a concrete run below
  does arithmetic on the progress, its numbers are dyadic rationals, which binary floating
  point adds and compares exactly.
\<close>

subsection \<open>Data model\<close>

type_synonym vec3 = "real \<times> real \<times> real"
type_synonym quat = "real \<times> real \<times> real \<times> real"

record ConeParams =
  radius :: real
  height :: real
  segments :: int

text \<open>\<open>Partial<ConeParams>\<close>: a property that is absent is \<open>None\<close>.\<close>

record PartialConeParams =
  radius_opt :: "real option"
  height_opt :: "real option"
  segments_opt :: "int option"

record Orientation =
  axis :: vec3
  quat :: quat

text \<open>
  The fields of the class. \<open>program\<close> is \<open>WebGLProgram | null\<close>, of which only
  "is set" matters; a buffer field holds the data uploaded to that buffer, \<open>None\<close> while
  the field is \<open>null\<close>.
\<close>

record ConeAnimation =
  program :: bool
  coneBuffer :: "real list option"
  coneNormalBuffer :: "real list option"
  coneIndexBuffer :: "int list option"
  axisBuffer :: "real list option"
  directionVectorBuffer :: "real list option"
  coneParams :: ConeParams
  coneVertexCount :: nat
  startOrientation :: Orientation
  endOrientation :: Orientation
  animationProgress :: real
  isAnimating :: bool
  animationSpeed :: real
  showIntermediateFrames :: bool
  intermediateFrames :: "quat list"
  loopAnimation :: bool

text \<open>The errors the class throws (\<open>throw new Error(...)\<close>), the \<open>TypeError\<close> of
  calling \<open>getContext\<close> on a missing canvas element, and the rejection of \<open>fetch\<close>.\<close>

datatype error =
  TypeError
  | WebGLNotSupported
  | ShaderCompilationError
  | ProgramLinkingError
  | FetchFailed

subsection \<open>The gl-matrix functions the engine calls\<close>

text \<open>
  \<open>vec3.normalize\<close>, \<open>quat.rotationTo\<close> and \<open>quat.slerp\<close> come from the package
  gl-matrix (line 1), whose source is not part of the repository. The engine is therefore
  modelled for an arbitrary implementation of the three, passed as a record; all three
  write their result to their first argument and return it, which the model renders as
  the function's value.
\<close>

record gl_matrix =
  vec3_normalize :: "vec3 \<Rightarrow> vec3"
  quat_rotationTo :: "vec3 \<Rightarrow> vec3 \<Rightarrow> quat"
  quat_slerp :: "quat \<Rightarrow> quat \<Rightarrow> real \<Rightarrow> quat"

text \<open>Modelled from the spec: \<open>vec3.scale\<close> (gl-matrix, source missing), the product
  \<open>axis * (height * 1.5)\<close> of section 4.1, every component multiplied by the scalar.\<close>

definition vec3_scale :: "vec3 \<Rightarrow> real \<Rightarrow> vec3" where
  "vec3_scale a b = (case a of (x, y, z) \<Rightarrow> (x * b, y * b, z * b))"

text \<open>\<open>quat.create()\<close> (gl-matrix) is the identity quaternion; the constructor overwrites
  it before it returns.\<close>

definition quat_create :: quat where
  "quat_create = (0, 0, 0, 1)"

subsection \<open>Orientation quaternions and the table of intermediate frames\<close>

text \<open>Lines 65-74: the loop \<open>for (let i = 0; i <= steps; i++)\<close> pushes one SLERP sample
  per iteration onto the (emptied) table.\<close>

function generateIntermediateFrames_loop ::
  "gl_matrix \<Rightarrow> ConeAnimation \<Rightarrow> nat \<Rightarrow> nat \<Rightarrow> quat list \<Rightarrow> quat list" where
  "generateIntermediateFrames_loop G s steps i frames =
     (if i \<le> steps then
        let t = real i / real steps;
            q = quat_slerp G (quat (startOrientation s)) (quat (endOrientation s)) t
        in generateIntermediateFrames_loop G s steps (Suc i) (frames @ [q])
      else frames)"
  by pat_completeness auto
termination
  by (relation "measure (\<lambda>(G, s, steps, i, frames). Suc steps - i)") auto

declare generateIntermediateFrames_loop.simps [simp del]

definition generateIntermediateFrames :: "gl_matrix \<Rightarrow> ConeAnimation \<Rightarrow> ConeAnimation" where
  "generateIntermediateFrames G s =
     s\<lparr>intermediateFrames := generateIntermediateFrames_loop G s 20 0 []\<rparr>"

definition upVector :: vec3 where
  "upVector = (0, 1, 0)"

text \<open>Lines 56-63.\<close>

definition updateOrientationQuaternions :: "gl_matrix \<Rightarrow> ConeAnimation \<Rightarrow> ConeAnimation" where
  "updateOrientationQuaternions G s =
     (let s1 = s\<lparr>startOrientation :=
                   (startOrientation s)\<lparr>quat := quat_rotationTo G upVector (axis (startOrientation s))\<rparr>\<rparr>;
          s2 = s1\<lparr>endOrientation :=
                   (endOrientation s1)\<lparr>quat := quat_rotationTo G upVector (axis (endOrientation s1))\<rparr>\<rparr>
      in generateIntermediateFrames G s2)"

text \<open>Lines 403-404 of \<open>render\<close>, with \<open>t\<close> for the progress: the orientation sampled
  directly by SLERP.\<close>

definition sample :: "gl_matrix \<Rightarrow> ConeAnimation \<Rightarrow> real \<Rightarrow> quat" where
  "sample G s t = quat_slerp G (quat (startOrientation s)) (quat (endOrientation s)) t"

subsection \<open>Construction\<close>

text \<open>What the constructor finds: no element with the given id, a canvas whose
  \<open>getContext('webgl')\<close> is null, or a canvas with a WebGL context.\<close>

datatype host = NoCanvas | CanvasWithoutWebGL | CanvasWithWebGL

text \<open>The field initialisers (lines 17-33) and the two orientations the constructor
  assigns (lines 43-51).\<close>

definition initial_fields :: ConeAnimation where
  "initial_fields =
     \<lparr>program = False,
      coneBuffer = None,
      coneNormalBuffer = None,
      coneIndexBuffer = None,
      axisBuffer = None,
      directionVectorBuffer = None,
      coneParams = \<lparr>radius = 1, height = 2, segments = 32\<rparr>,
      coneVertexCount = 0,
      startOrientation = \<lparr>axis = (0, 1, 0), quat = quat_create\<rparr>,
      endOrientation = \<lparr>axis = (1, 0, 0), quat = quat_create\<rparr>,
      animationProgress = 0,
      isAnimating = False,
      animationSpeed = 1 / 100,
      showIntermediateFrames = True,
      intermediateFrames = [],
      loopAnimation = True\<rparr>"

definition constructor :: "gl_matrix \<Rightarrow> host \<Rightarrow> error + ConeAnimation" where
  "constructor G h =
     (case h of
        NoCanvas \<Rightarrow> Inl TypeError
      | CanvasWithoutWebGL \<Rightarrow> Inl WebGLNotSupported
      | CanvasWithWebGL \<Rightarrow> Inr (updateOrientationQuaternions G initial_fields))"

subsection \<open>The animation clock\<close>

text \<open>Lines 408-418 of \<open>render\<close>: the per-frame advance of the progress. The sum of
  line 409 is exact here and rounded in the code, so over many frames the code may wrap
  or saturate a frame apart from this model (at speed 0.1 the code's sum after ten frames
  is just below 1). The statements below are about one frame, or locate the frame on the
  run itself.\<close>

definition render_advance :: "ConeAnimation \<Rightarrow> ConeAnimation" where
  "render_advance s =
     (if isAnimating s then
        let s1 = s\<lparr>animationProgress := animationProgress s + animationSpeed s\<rparr>
        in if animationProgress s1 \<ge> 1 then
             (if loopAnimation s1 then s1\<lparr>animationProgress := 0\<rparr>
              else s1\<lparr>animationProgress := 1, isAnimating := False\<rparr>)
           else s1
      else s)"

definition startAnimation :: "ConeAnimation \<Rightarrow> ConeAnimation" where
  "startAnimation s = s\<lparr>isAnimating := True, animationProgress := 0\<rparr>"

definition stopAnimation :: "ConeAnimation \<Rightarrow> ConeAnimation" where
  "stopAnimation s = s\<lparr>isAnimating := False\<rparr>"

definition resetAnimation :: "ConeAnimation \<Rightarrow> ConeAnimation" where
  "resetAnimation s = s\<lparr>animationProgress := 0, isAnimating := False\<rparr>"

definition setAnimationSpeed :: "real \<Rightarrow> ConeAnimation \<Rightarrow> ConeAnimation" where
  "setAnimationSpeed speed s = s\<lparr>animationSpeed := speed\<rparr>"

definition setShowIntermediateFrames :: "bool \<Rightarrow> ConeAnimation \<Rightarrow> ConeAnimation" where
  "setShowIntermediateFrames show s = s\<lparr>showIntermediateFrames := show\<rparr>"

definition setLoopAnimation :: "bool \<Rightarrow> ConeAnimation \<Rightarrow> ConeAnimation" where
  "setLoopAnimation loop s = s\<lparr>loopAnimation := loop\<rparr>"

definition getAnimationProgress :: "ConeAnimation \<Rightarrow> real" where
  "getAnimationProgress s = animationProgress s"

subsection \<open>Geometry\<close>

text \<open>Lines 140-152 of \<open>generateCone\<close>: the base ring, \<open>i = 0 .. segments\<close>.\<close>

function generateCone_ring ::
  "real \<Rightarrow> real \<Rightarrow> int \<Rightarrow> real \<Rightarrow> real \<Rightarrow> int \<Rightarrow> real list \<Rightarrow> real list
     \<Rightarrow> real list \<times> real list" where
  "generateCone_ring r h n sideNormalY sideNormalXZ i vertices normals =
     (if i \<le> n then
        let theta = (real_of_int i / real_of_int n) * pi * 2;
            x = r * cos theta;
            z = r * sin theta
        in generateCone_ring r h n sideNormalY sideNormalXZ (i + 1)
             (vertices @ [x, - h / 2, z])
             (normals @ [sideNormalXZ * cos theta, sideNormalY, sideNormalXZ * sin theta])
      else (vertices, normals))"
  by pat_completeness auto
termination
  by (relation "measure (\<lambda>(r, h, n, ny, nxz, i, vs, ns). nat (n + 1 - i))") auto

declare generateCone_ring.simps [simp del]

text \<open>Lines 154-156: the side triangles, \<open>i = 0 .. segments - 1\<close>.\<close>

function generateCone_side :: "int \<Rightarrow> int \<Rightarrow> int list \<Rightarrow> int list" where
  "generateCone_side n i indices =
     (if i < n then generateCone_side n (i + 1) (indices @ [0, i + 1, i + 2]) else indices)"
  by pat_completeness auto
termination
  by (relation "measure (\<lambda>(n, i, indices). nat (n - i))") auto

declare generateCone_side.simps [simp del]

text \<open>Lines 162-164: the base triangles, \<open>i = segments\<close> down to \<open>1\<close>.\<close>

function generateCone_base :: "int \<Rightarrow> int \<Rightarrow> int list \<Rightarrow> int list" where
  "generateCone_base baseCenter i indices =
     (if i \<ge> 1 then generateCone_base baseCenter (i - 1) (indices @ [baseCenter, i + 1, i])
      else indices)"
  by pat_completeness auto
termination
  by (relation "measure (\<lambda>(baseCenter, i, indices). nat i)") auto

declare generateCone_base.simps [simp del]

text \<open>Lines 129-164: the three arrays \<open>vertices\<close>, \<open>normals\<close>, \<open>indices\<close> that
  \<open>generateCone\<close> builds. \<open>vertices.length / 3\<close> is exact, the length being a multiple
  of three (lemma \<open>coneMesh_vertices_dvd\<close>). Where the code divides zero by zero (the ring
  angles at 0 segments, the side normals at radius and height 0) its coordinates are NaN
  and this model's are 0; the lengths and the indices are the same, and no statement
  below evaluates such a coordinate.\<close>

definition coneMesh :: "ConeParams \<Rightarrow> real list \<times> real list \<times> int list" where
  "coneMesh p =
     (let r = radius p; h = height p; n = segments p;
          vertices0 = [0, h / 2, 0];
          normals0 = [0, 1, 0];
          sideNormalY = r / sqrt (r * r + h * h);
          sideNormalXZ = h / sqrt (r * r + h * h);
          (vertices1, normals1) = generateCone_ring r h n sideNormalY sideNormalXZ 0 vertices0 normals0;
          indices1 = generateCone_side n 0 [];
          baseCenter = int (length vertices1) div 3;
          vertices2 = vertices1 @ [0, - h / 2, 0];
          normals2 = normals1 @ [0, - 1, 0];
          indices2 = generateCone_base baseCenter n indices1
      in (vertices2, normals2, indices2))"

text \<open>\<open>new Uint16Array(indices)\<close> stores every index modulo \<open>2^16\<close>;
  \<open>new Float32Array\<close> is the identity in this model of numbers.\<close>

definition Uint16Array :: "int list \<Rightarrow> int list" where
  "Uint16Array xs = map (\<lambda>k. k mod 65536) xs"

text \<open>Lines 128-179.\<close>

definition generateCone :: "ConeAnimation \<Rightarrow> ConeAnimation" where
  "generateCone s =
     (case coneMesh (coneParams s) of (vertices, normals, indices) \<Rightarrow>
        s\<lparr>coneVertexCount := length indices,
          coneBuffer := Some vertices,
          coneNormalBuffer := Some normals,
          coneIndexBuffer := Some (Uint16Array indices)\<rparr>)"

text \<open>Lines 181-192.\<close>

definition generateAxisLines :: "ConeAnimation \<Rightarrow> ConeAnimation" where
  "generateAxisLines s =
     (let axisLength = 3
      in s\<lparr>axisBuffer := Some [0, 0, 0, axisLength, 0, 0,
                               0, 0, 0, 0, axisLength, 0,
                               0, 0, 0, 0, 0, axisLength]\<rparr>)"

text \<open>Lines 194-210.\<close>

definition generateDirectionVectors :: "ConeAnimation \<Rightarrow> ConeAnimation" where
  "generateDirectionVectors s =
     (let vectorLength = height (coneParams s) * (3 / 2);
          startDir = vec3_scale (axis (startOrientation s)) vectorLength;
          endDir = vec3_scale (axis (endOrientation s)) vectorLength
      in case (startDir, endDir) of ((sx, sy, sz), (ex, ey, ez)) \<Rightarrow>
           s\<lparr>directionVectorBuffer := Some [0, 0, 0, sx, sy, sz, 0, 0, 0, ex, ey, ez]\<rparr>)"

subsection \<open>Rendering a frame\<close>

text \<open>What a frame draws: the axis gizmo, the two direction vectors, and cones, each cone
  with the quaternion that rotates it and its alpha.\<close>

datatype draw_call = AxisLines | DirectionLines | Cone quat real

text \<open>Lines 212-269, 271-328, 330-387: each returns at once while \<open>program\<close> is null.\<close>

definition drawCone :: "ConeAnimation \<Rightarrow> quat \<Rightarrow> real \<Rightarrow> draw_call list" where
  "drawCone s quaternion alpha = (if \<not> program s then [] else [Cone quaternion alpha])"

definition drawAxes :: "ConeAnimation \<Rightarrow> draw_call list" where
  "drawAxes s = (if \<not> program s then [] else [AxisLines])"

definition drawDirectionVectors :: "ConeAnimation \<Rightarrow> draw_call list" where
  "drawDirectionVectors s = (if \<not> program s then [] else [DirectionLines])"

text \<open>Lines 398-401: the loop over the table of intermediate frames.\<close>

function render_trail :: "ConeAnimation \<Rightarrow> nat \<Rightarrow> draw_call list" where
  "render_trail s i =
     (if i < length (intermediateFrames s) then
        let alpha = 15 / 100 + (real i / real (length (intermediateFrames s))) * (3 / 10)
        in drawCone s (intermediateFrames s ! i) alpha @ render_trail s (Suc i)
      else [])"
  by pat_completeness auto
termination
  by (relation "measure (\<lambda>(s, i). length (intermediateFrames s) - i)") auto

declare render_trail.simps [simp del]

text \<open>Lines 397-406: the cones of a frame.\<close>

definition render_cones :: "gl_matrix \<Rightarrow> ConeAnimation \<Rightarrow> draw_call list" where
  "render_cones G s =
     (if showIntermediateFrames s \<and> \<not> isAnimating s then render_trail s 0
      else
        let currentQuat =
              quat_slerp G (quat (startOrientation s)) (quat (endOrientation s)) (animationProgress s)
        in drawCone s currentQuat 1)"

text \<open>Lines 389-421: one frame. The frame's draw calls and the engine after the frame;
  \<open>requestAnimationFrame\<close> then runs \<open>render\<close> again on that engine.\<close>

definition render :: "gl_matrix \<Rightarrow> ConeAnimation \<Rightarrow> draw_call list \<times> ConeAnimation" where
  "render G s = (drawAxes s @ drawDirectionVectors s @ render_cones G s, render_advance s)"

text \<open>Lines 76-126. What the page and the GPU pipeline answer: whether each shader source
  is fetched, whether each shader compiles, whether the program links. \<open>initialize\<close>
  awaits both sources before it compiles either; its result is the first frame.\<close>

record gpu =
  vertexSourceLoads :: bool
  fragmentSourceLoads :: bool
  vertexShaderCompiles :: bool
  fragmentShaderCompiles :: bool
  programLinks :: bool

definition initialize ::
  "gl_matrix \<Rightarrow> gpu \<Rightarrow> ConeAnimation \<Rightarrow> error + draw_call list \<times> ConeAnimation" where
  "initialize G env s =
     (if \<not> vertexSourceLoads env then Inl FetchFailed
      else if \<not> fragmentSourceLoads env then Inl FetchFailed
      else if \<not> vertexShaderCompiles env then Inl ShaderCompilationError
      else if \<not> fragmentShaderCompiles env then Inl ShaderCompilationError
      else if \<not> programLinks env then Inl ProgramLinkingError
      else Inr (render G
                 (generateDirectionVectors (generateAxisLines (generateCone (s\<lparr>program := True\<rparr>))))))"

subsection \<open>Setters of geometry and axes\<close>

text \<open>Lines 445-448. The spread \<open>{ ...this.coneParams, ...params }\<close> takes every property
  that \<open>params\<close> has from \<open>params\<close>.\<close>

definition spread :: "ConeParams \<Rightarrow> PartialConeParams \<Rightarrow> ConeParams" where
  "spread p q =
     \<lparr>radius = (case radius_opt q of None \<Rightarrow> radius p | Some v \<Rightarrow> v),
      height = (case height_opt q of None \<Rightarrow> height p | Some v \<Rightarrow> v),
      segments = (case segments_opt q of None \<Rightarrow> segments p | Some v \<Rightarrow> v)\<rparr>"

definition setConeParams :: "PartialConeParams \<Rightarrow> ConeAnimation \<Rightarrow> ConeAnimation" where
  "setConeParams params s = generateCone (s\<lparr>coneParams := spread (coneParams s) params\<rparr>)"

text \<open>Lines 450-454 and 456-460.\<close>

definition setStartAxis :: "gl_matrix \<Rightarrow> vec3 \<Rightarrow> ConeAnimation \<Rightarrow> ConeAnimation" where
  "setStartAxis G a s =
     generateDirectionVectors
       (updateOrientationQuaternions G
          (s\<lparr>startOrientation := (startOrientation s)\<lparr>axis := vec3_normalize G a\<rparr>\<rparr>))"

definition setEndAxis :: "gl_matrix \<Rightarrow> vec3 \<Rightarrow> ConeAnimation \<Rightarrow> ConeAnimation" where
  "setEndAxis G a s =
     generateDirectionVectors
       (updateOrientationQuaternions G
          (s\<lparr>endOrientation := (endOrientation s)\<lparr>axis := vec3_normalize G a\<rparr>\<rparr>))"

text \<open>A call of one of the two axis setters, and a sequence of such calls.\<close>

datatype axis_call = SetStartAxis vec3 | SetEndAxis vec3

fun apply_axis_call :: "gl_matrix \<Rightarrow> ConeAnimation \<Rightarrow> axis_call \<Rightarrow> ConeAnimation" where
  "apply_axis_call G s (SetStartAxis a) = setStartAxis G a s"
| "apply_axis_call G s (SetEndAxis a) = setEndAxis G a s"

subsection \<open>An implementation of the gl-matrix functions\<close>

text \<open>
  The source of \<open>vec3.normalize\<close>, \<open>quat.rotationTo\<close> and \<open>quat.slerp\<close> is missing
  (package gl-matrix). Section 4.2 of the spec names what they compute; the definitions
  below are those constructions, with the thresholds and the guard against a zero length
  that the published gl-matrix has. They serve to evaluate the engine at concrete inputs;
  the theorems about the engine hold for every implementation.
\<close>

text \<open>Modelled from the spec: the dot product, cross product and length of vectors that
  the shortest-arc construction of section 4.2 uses (gl-matrix's \<open>vec3.dot\<close>,
  \<open>vec3.cross\<close>, \<open>vec3.len\<close>, source missing).\<close>

definition glm_dot :: "vec3 \<Rightarrow> vec3 \<Rightarrow> real" where
  "glm_dot a b = (case (a, b) of ((ax, ay, az), (bx, by, bz)) \<Rightarrow> ax * bx + ay * by + az * bz)"

definition glm_cross :: "vec3 \<Rightarrow> vec3 \<Rightarrow> vec3" where
  "glm_cross a b =
     (case (a, b) of ((ax, ay, az), (bx, by, bz)) \<Rightarrow>
        (ay * bz - az * by, az * bx - ax * bz, ax * by - ay * bx))"

definition glm_len :: "vec3 \<Rightarrow> real" where
  "glm_len a = (case a of (x, y, z) \<Rightarrow> sqrt (x * x + y * y + z * z))"

text \<open>Modelled from the spec: \<open>vec3.normalize\<close> (gl-matrix, source missing), "normalizes
  \<open>v\<close>" in section 4.2. A vector of length zero is returned as it is, as gl-matrix does;
  the division is never by zero.\<close>

definition glm_normalize :: "vec3 \<Rightarrow> vec3" where
  "glm_normalize a =
     (case a of (x, y, z) \<Rightarrow>
        let len = x * x + y * y + z * z;
            len' = (if len > 0 then 1 / sqrt len else len)
        in (x * len', y * len', z * len'))"

text \<open>Modelled from the spec: \<open>quat.normalize\<close> and \<open>quat.setAxisAngle\<close> (gl-matrix, source
  missing), the unit quaternion of given direction and the quaternion of a rotation about
  an axis, which the shortest-arc construction of section 4.2 uses.\<close>

definition glm_quat_normalize :: "quat \<Rightarrow> quat" where
  "glm_quat_normalize a =
     (case a of (x, y, z, w) \<Rightarrow>
        let len = x * x + y * y + z * z + w * w;
            len' = (if len > 0 then 1 / sqrt len else len)
        in (x * len', y * len', z * len', w * len'))"

definition glm_setAxisAngle :: "vec3 \<Rightarrow> real \<Rightarrow> quat" where
  "glm_setAxisAngle a rad =
     (case a of (x, y, z) \<Rightarrow>
        let rad' = rad * (1 / 2); s = sin rad'
        in (s * x, s * y, s * z, cos rad'))"

text \<open>Modelled from the spec: \<open>quat.rotationTo\<close> (gl-matrix, source missing), the
  shortest-arc quaternion from \<open>a\<close> to \<open>b\<close> of section 4.2: if the two are antiparallel, a
  half turn about a perpendicular axis; if they coincide, the identity.\<close>

definition glm_rotationTo :: "vec3 \<Rightarrow> vec3 \<Rightarrow> quat" where
  "glm_rotationTo a b =
     (let dot = glm_dot a b
      in if dot < - (999999 / 1000000) then
           let tmp = glm_cross (1, 0, 0) a;
               tmp' = (if glm_len tmp < 1 / 1000000 then glm_cross (0, 1, 0) a else tmp)
           in glm_setAxisAngle (glm_normalize tmp') pi
         else if dot > 999999 / 1000000 then (0, 0, 0, 1)
         else case glm_cross a b of (x, y, z) \<Rightarrow> glm_quat_normalize (x, y, z, 1 + dot))"

text \<open>Modelled from the spec: \<open>quat.slerp\<close> (gl-matrix, source missing), SLERP in the
  shortest-path formulation of section 4.2: one quaternion is negated if the dot product
  of the two is negative; nearly equal quaternions are interpolated linearly.\<close>

definition glm_slerp :: "quat \<Rightarrow> quat \<Rightarrow> real \<Rightarrow> quat" where
  "glm_slerp a b t =
     (case (a, b) of ((ax, ay, az, aw), (bx0, by0, bz0, bw0)) \<Rightarrow>
        let cosom0 = ax * bx0 + ay * by0 + az * bz0 + aw * bw0;
            (cosom, bx, by, bz, bw) =
              (if cosom0 < 0 then (- cosom0, - bx0, - by0, - bz0, - bw0)
               else (cosom0, bx0, by0, bz0, bw0));
            (scale0, scale1) =
              (if 1 - cosom > 1 / 1000000 then
                 let omega = arccos cosom; sinom = sin omega
                 in (sin ((1 - t) * omega) / sinom, sin (t * omega) / sinom)
               else (1 - t, t))
        in (scale0 * ax + scale1 * bx, scale0 * ay + scale1 * by,
            scale0 * az + scale1 * bz, scale0 * aw + scale1 * bw))"

definition glMatrix :: gl_matrix where
  "glMatrix = \<lparr>vec3_normalize = glm_normalize, quat_rotationTo = glm_rotationTo,
      quat_slerp = glm_slerp\<rparr>"

text \<open>The engine a page gets from \<open>new ConeAnimation(canvasId)\<close> with this implementation
  and a WebGL canvas (lemma \<open>constructor_engine\<close>).\<close>

definition engine :: ConeAnimation where
  "engine = updateOrientationQuaternions glMatrix initial_fields"

text \<open>That engine at its first frame: what \<open>initialize\<close> passes to \<open>render\<close> when both shaders
  compile and the program links (lemma \<open>initialize_engine\<close>).\<close>

definition first_frame :: ConeAnimation where
  "first_frame =
     generateDirectionVectors (generateAxisLines (generateCone (engine\<lparr>program := True\<rparr>)))"

section \<open>Properties\<close>

subsection \<open>The table loop in closed form, and the fields an operation leaves alone\<close>

lemma generateIntermediateFrames_loop_eq:
  "generateIntermediateFrames_loop G s steps i frames =
     frames @ map (\<lambda>j. quat_slerp G (quat (startOrientation s)) (quat (endOrientation s))
                          (real j / real steps)) [i..<Suc steps]"
proof (induction G s steps i frames rule: generateIntermediateFrames_loop.induct)
  case (1 G s steps i frames)
  show ?case
  proof (cases "i \<le> steps")
    case True
    then have "[i..<Suc steps] = i # [Suc i..<Suc steps]"
      by (simp add: upt_conv_Cons)
    with True "1.IH" show ?thesis
      by (subst generateIntermediateFrames_loop.simps) (simp add: Let_def)
  next
    case False
    then show ?thesis
      by (subst generateIntermediateFrames_loop.simps) simp
  qed
qed

lemma generateIntermediateFrames_table:
  "intermediateFrames (generateIntermediateFrames G s) =
     map (\<lambda>j. sample G s (real j / 20)) [0..<21]"
proof -
  have "intermediateFrames (s\<lparr>intermediateFrames := generateIntermediateFrames_loop G s n 0 []\<rparr>) =
          map (\<lambda>j. sample G s (real j / real n)) [0..<Suc n]" for n
    by (simp add: generateIntermediateFrames_loop_eq sample_def)
  from this[of 20] have "intermediateFrames (generateIntermediateFrames G s) =
          map (\<lambda>j. sample G s (real j / real 20)) [0..<Suc 20]"
    by (simp only: generateIntermediateFrames_def)
  moreover have "Suc 20 = 21" "real 20 = 20" by simp_all
  ultimately show ?thesis by (simp only:)
qed

lemma sample_cong:
  "startOrientation s = startOrientation s' \<Longrightarrow> endOrientation s = endOrientation s'
     \<Longrightarrow> sample G s = sample G s'"
  by (simp add: sample_def fun_eq_iff)

lemma updateOrientationQuaternions_table:
  "intermediateFrames (updateOrientationQuaternions G s) =
     map (\<lambda>j. sample G (updateOrientationQuaternions G s) (real j / 20)) [0..<21]"
proof -
  have "sample G (generateIntermediateFrames G s') = sample G s'" for s'
    by (rule sample_cong) (simp_all add: generateIntermediateFrames_def)
  then show ?thesis
    by (simp only: updateOrientationQuaternions_def Let_def generateIntermediateFrames_table)
qed

lemma updateOrientationQuaternions_fields [simp]:
  "program (updateOrientationQuaternions G s) = program s"
  "coneParams (updateOrientationQuaternions G s) = coneParams s"
  "animationProgress (updateOrientationQuaternions G s) = animationProgress s"
  "animationSpeed (updateOrientationQuaternions G s) = animationSpeed s"
  "isAnimating (updateOrientationQuaternions G s) = isAnimating s"
  "loopAnimation (updateOrientationQuaternions G s) = loopAnimation s"
  "showIntermediateFrames (updateOrientationQuaternions G s) = showIntermediateFrames s"
  "axis (startOrientation (updateOrientationQuaternions G s)) = axis (startOrientation s)"
  "axis (endOrientation (updateOrientationQuaternions G s)) = axis (endOrientation s)"
  "quat (startOrientation (updateOrientationQuaternions G s)) =
     quat_rotationTo G upVector (axis (startOrientation s))"
  "quat (endOrientation (updateOrientationQuaternions G s)) =
     quat_rotationTo G upVector (axis (endOrientation s))"
  by (simp_all add: updateOrientationQuaternions_def generateIntermediateFrames_def Let_def)

lemma generateDirectionVectors_fields [simp]:
  "program (generateDirectionVectors s) = program s"
  "coneParams (generateDirectionVectors s) = coneParams s"
  "startOrientation (generateDirectionVectors s) = startOrientation s"
  "endOrientation (generateDirectionVectors s) = endOrientation s"
  "intermediateFrames (generateDirectionVectors s) = intermediateFrames s"
  "animationProgress (generateDirectionVectors s) = animationProgress s"
  "animationSpeed (generateDirectionVectors s) = animationSpeed s"
  "isAnimating (generateDirectionVectors s) = isAnimating s"
  "loopAnimation (generateDirectionVectors s) = loopAnimation s"
  "showIntermediateFrames (generateDirectionVectors s) = showIntermediateFrames s"
  by (simp_all add: generateDirectionVectors_def Let_def split: prod.splits)

lemma engine_clock [simp]:
  "animationProgress engine = 0"
  "animationSpeed engine = 1 / 100"
  "\<not> isAnimating engine"
  "loopAnimation engine"
  "showIntermediateFrames engine"
  "\<not> program engine"
  by (simp_all add: engine_def initial_fields_def)

lemma constructor_engine: "constructor glMatrix CanvasWithWebGL = Inr engine"
  by (simp add: constructor_def engine_def)

lemma clock_setter_fields [simp]:
  "isAnimating (startAnimation s)" "animationProgress (startAnimation s) = 0"
  "animationSpeed (startAnimation s) = animationSpeed s"
  "loopAnimation (startAnimation s) = loopAnimation s"
  "animationSpeed (setAnimationSpeed v s) = v"
  "loopAnimation (setAnimationSpeed v s) = loopAnimation s"
  "isAnimating (setAnimationSpeed v s) = isAnimating s"
  "animationProgress (setAnimationSpeed v s) = animationProgress s"
  by (simp_all add: startAnimation_def setAnimationSpeed_def)

lemma setLoopAnimation_fields [simp]:
  "isAnimating (setLoopAnimation b s) = isAnimating s"
  "loopAnimation (setLoopAnimation b s) = b"
  "animationSpeed (setLoopAnimation b s) = animationSpeed s"
  "animationProgress (setLoopAnimation b s) = animationProgress s"
  by (simp_all add: setLoopAnimation_def)

lemma generateCone_fields [simp]:
  "program (generateCone s) = program s"
  "coneParams (generateCone s) = coneParams s"
  "startOrientation (generateCone s) = startOrientation s"
  "endOrientation (generateCone s) = endOrientation s"
  "intermediateFrames (generateCone s) = intermediateFrames s"
  "animationProgress (generateCone s) = animationProgress s"
  "animationSpeed (generateCone s) = animationSpeed s"
  "isAnimating (generateCone s) = isAnimating s"
  "loopAnimation (generateCone s) = loopAnimation s"
  "showIntermediateFrames (generateCone s) = showIntermediateFrames s"
  by (simp_all add: generateCone_def split: prod.splits)

lemma generateAxisLines_fields [simp]:
  "program (generateAxisLines s) = program s"
  "coneParams (generateAxisLines s) = coneParams s"
  "startOrientation (generateAxisLines s) = startOrientation s"
  "endOrientation (generateAxisLines s) = endOrientation s"
  "intermediateFrames (generateAxisLines s) = intermediateFrames s"
  "animationProgress (generateAxisLines s) = animationProgress s"
  "animationSpeed (generateAxisLines s) = animationSpeed s"
  "isAnimating (generateAxisLines s) = isAnimating s"
  "loopAnimation (generateAxisLines s) = loopAnimation s"
  "showIntermediateFrames (generateAxisLines s) = showIntermediateFrames s"
  by (simp_all add: generateAxisLines_def Let_def)

lemma initialize_engine:
  "initialize glMatrix
     \<lparr>vertexSourceLoads = True, fragmentSourceLoads = True, vertexShaderCompiles = True,
      fragmentShaderCompiles = True, programLinks = True\<rparr> engine
     = Inr (render glMatrix first_frame)"
  by (simp add: initialize_def first_frame_def)

lemma first_frame_fields [simp]:
  "program first_frame" "showIntermediateFrames first_frame" "\<not> isAnimating first_frame"
  "intermediateFrames first_frame = intermediateFrames engine"
  "animationProgress first_frame = 0"
  by (simp_all add: first_frame_def)

lemma length_engine_table [simp]: "length (intermediateFrames engine) = 21"
  by (simp add: engine_def updateOrientationQuaternions_table)

subsection \<open>The animation clock while looping\<close>

text \<open>A frame leaves the engine as its advance does, and draws the cones after the
  lines.\<close>

lemma render_frame:
  "snd (render G s) = render_advance s"
  "fst (render G s) = drawAxes s @ drawDirectionVectors s @ render_cones G s"
  by (simp_all add: render_def)

text \<open>
  Claim C1, as amended. While the clock is Playing and \<open>loop\<close> is true, the per-frame
  advance adds \<open>speed\<close> to \<open>progress\<close> and, if the sum is at least 1, sets \<open>progress\<close> to
  0: the overshoot is dropped, not carried over. Nothing else changes, and the clock stays
  Playing.
\<close>

theorem render_advance_loop_resets:
  assumes "isAnimating s" and "loopAnimation s"
  shows "render_advance s =
           s\<lparr>animationProgress :=
               (if animationProgress s + animationSpeed s \<ge> 1 then 0
                else animationProgress s + animationSpeed s)\<rparr>"
  using assms by (simp add: render_advance_def Let_def)

text \<open>The theorem at speed 3/8, started on the constructed engine: the first frame goes
  from 0 to 3/8, the second to 3/4, the third from 3/4 to 0.\<close>

theorem render_advance_loop_resets_witness:
  "isAnimating (startAnimation (setAnimationSpeed (3 / 8) engine))
   \<and> loopAnimation (startAnimation (setAnimationSpeed (3 / 8) engine))
   \<and> animationProgress (render_advance (startAnimation (setAnimationSpeed (3 / 8) engine))) = 3 / 8
   \<and> animationProgress
         (render_advance (render_advance (startAnimation (setAnimationSpeed (3 / 8) engine)))) = 3 / 4
   \<and> animationProgress
         (render_advance (render_advance (render_advance
            (startAnimation (setAnimationSpeed (3 / 8) engine))))) = 0"
proof -
  let ?s = "startAnimation (setAnimationSpeed (3 / 8) engine)"
  let ?s1 = "render_advance ?s"
  let ?s2 = "render_advance ?s1"
  have a: "isAnimating ?s" and l: "loopAnimation ?s" by simp_all
  note T = render_advance_loop_resets[OF a l]
  from T have p1: "animationProgress ?s1 = 3 / 8"
    and a1: "isAnimating ?s1" and l1: "loopAnimation ?s1" and v1: "animationSpeed ?s1 = 3 / 8"
    by simp_all
  note T1 = render_advance_loop_resets[OF a1 l1]
  from T1 p1 v1 a1 l1 have p2: "animationProgress ?s2 = 3 / 4"
    and a2: "isAnimating ?s2" and l2: "loopAnimation ?s2" and v2: "animationSpeed ?s2 = 3 / 8"
    by simp_all
  note T2 = render_advance_loop_resets[OF a2 l2]
  from T2 p2 v2 have p3: "animationProgress (render_advance ?s2) = 0"
    by simp
  show ?thesis
    by (intro conjI a l p1 p2 p3)
qed

text \<open>
  Claim C1 as stated fails: with speed 3/8 the third frame reaches 9/8, and the code sets
  the progress to 0, where wrapping by subtraction, \<open>(3 * 3/8) mod 1\<close>, gives 1/8.
\<close>

theorem render_advance_loop_drops_overshoot:
  "animationProgress ((render_advance ^^ 3) (startAnimation (setAnimationSpeed (3 / 8) engine))) = 0
   \<and> frac (3 * (3 / 8) :: real) = 1 / 8"
  by (simp add: numeral_3_eq_3 render_advance_def Let_def startAnimation_def
      setAnimationSpeed_def frac_def)

subsection \<open>Starting the animation\<close>

text \<open>
  Claim C3, as amended. In every state, \<open>startAnimation\<close> sets the clock to Playing and
  the progress to 0, whatever the progress was and whatever was called before; it changes
  nothing else.
\<close>

theorem startAnimation_resets:
  "startAnimation s = s\<lparr>isAnimating := True, animationProgress := 0\<rparr>
   \<and> isAnimating (startAnimation s) \<and> animationProgress (startAnimation s) = 0"
  by (simp add: startAnimation_def)

text \<open>
  Claim C3 as stated fails: after one frame at speed 1/2 and a \<open>stopAnimation\<close> (not a
  reset), the progress is 1/2, and \<open>startAnimation\<close> sets it to 0.
\<close>

theorem startAnimation_loses_progress:
  "animationProgress (stopAnimation (render_advance (startAnimation (setAnimationSpeed (1 / 2) engine)))) = 1 / 2
   \<and> animationProgress (startAnimation (stopAnimation (render_advance
         (startAnimation (setAnimationSpeed (1 / 2) engine))))) = 0"
  by (simp add: render_advance_def Let_def startAnimation_def stopAnimation_def
      setAnimationSpeed_def)

subsection \<open>The animation clock without looping\<close>

lemma render_advance_stopped: "\<not> isAnimating s \<Longrightarrow> (render_advance ^^ k) s = s"
  by (induction k) (simp_all add: render_advance_def)

lemma render_advance_speed [simp]: "animationSpeed (render_advance s) = animationSpeed s"
  and render_advance_loopflag [simp]: "loopAnimation (render_advance s) = loopAnimation s"
  by (simp_all add: render_advance_def Let_def)

lemma render_advance_run_flags [simp]:
  "animationSpeed ((render_advance ^^ k) s) = animationSpeed s"
  "loopAnimation ((render_advance ^^ k) s) = loopAnimation s"
  by (induction k) simp_all

lemma render_advance_playing_before:
  assumes "isAnimating s" "\<not> loopAnimation s"
    and "\<forall>j<m. animationProgress ((render_advance ^^ j) s) + animationSpeed s < 1"
  shows "isAnimating ((render_advance ^^ m) s)"
  using assms(3)
proof (induction m)
  case 0
  then show ?case using assms(1) by simp
next
  case (Suc m)
  then have "isAnimating ((render_advance ^^ m) s)" by simp
  moreover have "animationProgress ((render_advance ^^ m) s) + animationSpeed s < 1"
    using Suc.prems by simp
  ultimately show ?case
    by (simp add: render_advance_def[of "(render_advance ^^ m) s"] Let_def)
qed

text \<open>
  Claim C6. Let the clock be Playing with \<open>loop\<close> false, and let frame \<open>m\<close> be the first
  whose advance would bring the progress to 1 or beyond. Then the clock is Playing up
  to and including frame \<open>m\<close>, and after every later frame the clock is Stopped with
  progress exactly 1: the transition from Playing to Stopped happens once, at that frame.
\<close>

theorem render_advance_saturates:
  assumes "isAnimating s" and "\<not> loopAnimation s"
    and "\<forall>j<m. animationProgress ((render_advance ^^ j) s) + animationSpeed s < 1"
    and "1 \<le> animationProgress ((render_advance ^^ m) s) + animationSpeed s"
  shows "(\<forall>j\<le>m. isAnimating ((render_advance ^^ j) s))
         \<and> (\<forall>k>m. \<not> isAnimating ((render_advance ^^ k) s)
                   \<and> animationProgress ((render_advance ^^ k) s) = 1)"
proof (intro conjI allI impI)
  fix j assume "j \<le> m"
  then have "\<forall>i<j. animationProgress ((render_advance ^^ i) s) + animationSpeed s < 1"
    using assms(3) by simp
  then show "isAnimating ((render_advance ^^ j) s)"
    by (rule render_advance_playing_before[OF assms(1,2)])
next
  let ?t = "(render_advance ^^ m) s"
  have play: "isAnimating ?t"
    by (rule render_advance_playing_before[OF assms(1,2,3)])
  have stop: "\<not> isAnimating (render_advance ?t)" "animationProgress (render_advance ?t) = 1"
    using play assms(2,4) by (simp_all add: render_advance_def[of ?t] Let_def)
  fix k assume "m < k"
  then obtain d where k: "k = d + Suc m" by (metis add.commute less_iff_Suc_add add_Suc_right)
  have "(render_advance ^^ k) s = (render_advance ^^ d) (render_advance ?t)"
    by (simp add: k funpow_add funpow_swap1)
  also have "\<dots> = render_advance ?t"
    by (rule render_advance_stopped[OF stop(1)])
  finally have "(render_advance ^^ k) s = render_advance ?t" .
  then show "\<not> isAnimating ((render_advance ^^ k) s)"
    and "animationProgress ((render_advance ^^ k) s) = 1"
    using stop by simp_all
qed

text \<open>The theorem at speed 3/8 without looping: frames 0 to 2 play (progress 0, 3/8,
  3/4), the third advance saturates.\<close>

theorem render_advance_saturates_witness:
  "isAnimating (startAnimation (setLoopAnimation False (setAnimationSpeed (3 / 8) engine)))
   \<and> \<not> loopAnimation (startAnimation (setLoopAnimation False (setAnimationSpeed (3 / 8) engine)))
   \<and> isAnimating ((render_advance ^^ 2) (startAnimation (setLoopAnimation False (setAnimationSpeed (3 / 8) engine))))
   \<and> animationProgress ((render_advance ^^ 2) (startAnimation (setLoopAnimation False (setAnimationSpeed (3 / 8) engine)))) = 3 / 4
   \<and> \<not> isAnimating ((render_advance ^^ 3) (startAnimation (setLoopAnimation False (setAnimationSpeed (3 / 8) engine))))
   \<and> animationProgress ((render_advance ^^ 3) (startAnimation (setLoopAnimation False (setAnimationSpeed (3 / 8) engine)))) = 1
   \<and> animationProgress ((render_advance ^^ 7) (startAnimation (setLoopAnimation False (setAnimationSpeed (3 / 8) engine)))) = 1"
proof -
  let ?s = "startAnimation (setLoopAnimation False (setAnimationSpeed (3 / 8) engine))"
  have a: "isAnimating ?s" and l: "\<not> loopAnimation ?s" by simp_all
  have p1: "animationProgress (render_advance ?s) = 3 / 8" and i1: "isAnimating (render_advance ?s)"
    by (simp_all add: render_advance_def Let_def)
  have p2: "animationProgress ((render_advance ^^ 2) ?s) = 3 / 4"
    using p1 i1 by (simp add: numeral_2_eq_2 render_advance_def[of "render_advance ?s"] Let_def)
  have before: "\<forall>j<2. animationProgress ((render_advance ^^ j) ?s) + animationSpeed ?s < 1"
    using p1 by (simp add: numeral_2_eq_2 All_less_Suc)
  have at: "1 \<le> animationProgress ((render_advance ^^ 2) ?s) + animationSpeed ?s"
    using p2 by simp
  from render_advance_saturates[OF a l before at] a l p2 show ?thesis
    by simp
qed

subsection \<open>Setting the speed\<close>

text \<open>
  Claim C7, as amended. For every \<open>v\<close>, positive or not, \<open>setAnimationSpeed v\<close> stores
  \<open>v\<close> as the speed and changes nothing else; the engine has no validation and the
  setter cannot fail.
\<close>

theorem setAnimationSpeed_stores:
  "setAnimationSpeed v s = s\<lparr>animationSpeed := v\<rparr> \<and> animationSpeed (setAnimationSpeed v s) = v"
  by (simp add: setAnimationSpeed_def)

text \<open>Claim C7 as stated fails: \<open>setAnimationSpeed (-1)\<close> on the constructed engine
  replaces the speed 0.01 by -1.\<close>

theorem setAnimationSpeed_accepts_negative:
  "animationSpeed engine = 1 / 100 \<and> animationSpeed (setAnimationSpeed (- 1) engine) = - 1"
  by simp

subsection \<open>The cone mesh\<close>

lemma generateCone_ring_length:
  "length (fst (generateCone_ring r h n ny nxz i vs ns)) = length vs + 3 * nat (n + 1 - i)"
  "length (snd (generateCone_ring r h n ny nxz i vs ns)) = length ns + 3 * nat (n + 1 - i)"
proof (induction r h n ny nxz i vs ns rule: generateCone_ring.induct)
  case (1 r h n ny nxz i vs ns)
  {
    case 1
    show ?case
    proof (cases "i \<le> n")
      case True
      then have "nat (n + 1 - i) = Suc (nat (n + 1 - (i + 1)))" by simp
      with True "1.IH"(1) show ?thesis
        by (subst generateCone_ring.simps) (simp add: Let_def)
    next
      case False
      then show ?thesis by (subst generateCone_ring.simps) simp
    qed
  next
    case 2
    show ?case
    proof (cases "i \<le> n")
      case True
      then have "nat (n + 1 - i) = Suc (nat (n + 1 - (i + 1)))" by simp
      with True "1.IH"(2) show ?thesis
        by (subst generateCone_ring.simps) (simp add: Let_def)
    next
      case False
      then show ?thesis by (subst generateCone_ring.simps) simp
    qed
  }
qed

lemma generateCone_side_length:
  "length (generateCone_side n i indices) = length indices + 3 * nat (n - i)"
proof (induction n i indices rule: generateCone_side.induct)
  case (1 n i indices)
  show ?case
  proof (cases "i < n")
    case True
    then have "nat (n - i) = Suc (nat (n - (i + 1)))" by simp
    with True "1.IH" show ?thesis
      by (subst generateCone_side.simps) simp
  next
    case False
    then show ?thesis by (subst generateCone_side.simps) simp
  qed
qed

lemma generateCone_base_length:
  "length (generateCone_base c i indices) = length indices + 3 * nat i"
proof (induction c i indices rule: generateCone_base.induct)
  case (1 c i indices)
  show ?case
  proof (cases "1 \<le> i")
    case True
    then have "nat i = Suc (nat (i - 1))" by simp
    with True "1.IH" show ?thesis
      by (subst generateCone_base.simps) simp
  next
    case False
    then show ?thesis by (subst generateCone_base.simps) simp
  qed
qed

lemma coneMesh_lengths:
  "length (fst (coneMesh p)) = 3 * (nat (segments p + 1) + 2)"
  "length (fst (snd (coneMesh p))) = 3 * (nat (segments p + 1) + 2)"
  "length (snd (snd (coneMesh p))) = 6 * nat (segments p)"
  by (simp_all add: coneMesh_def Let_def split_beta generateCone_ring_length
      generateCone_side_length generateCone_base_length)

lemma coneMesh_vertices_dvd: "3 dvd length (fst (generateCone_ring r h n ny nxz 0 [0, h / 2, 0] [0, 1, 0]))"
proof -
  have "length (fst (generateCone_ring r h n ny nxz 0 [0, h / 2, 0] [0, 1, 0])) =
          3 * (1 + nat (n + 1))"
    by (simp add: generateCone_ring_length)
  then show ?thesis by (simp only: dvd_triv_left)
qed

text \<open>
  Claim C5. For a segment count \<open>n \<ge> 3\<close>, the cone mesh has \<open>6 * n\<close> indices and
  \<open>n + 3\<close> vertices (three numbers each in the array \<open>vertices\<close>), with one normal per
  vertex.
\<close>

theorem coneMesh_counts:
  assumes "3 \<le> segments p"
  shows "length (snd (snd (coneMesh p))) = 6 * nat (segments p)
         \<and> length (fst (coneMesh p)) = 3 * (nat (segments p) + 3)
         \<and> length (fst (snd (coneMesh p))) = length (fst (coneMesh p))"
proof -
  have "nat (segments p + 1) = nat (segments p) + 1" using assms by simp
  then show ?thesis by (simp add: coneMesh_lengths)
qed

text \<open>The theorem at radius 1, height 2 and 4 segments: 24 indices and 7 vertices.\<close>

theorem coneMesh_counts_witness:
  "(3 :: int) \<le> segments \<lparr>radius = 1, height = 2, segments = 4\<rparr>
   \<and> length (snd (snd (coneMesh \<lparr>radius = 1, height = 2, segments = 4\<rparr>))) = 24
   \<and> length (fst (coneMesh \<lparr>radius = 1, height = 2, segments = 4\<rparr>)) = 3 * 7"
  using coneMesh_counts[of "\<lparr>radius = 1, height = 2, segments = 4\<rparr>"] by simp

subsection \<open>The table of intermediate frames\<close>

lemma generateDirectionVectors_sample [simp]:
  "sample G (generateDirectionVectors s) = sample G s"
  by (rule sample_cong) simp_all

lemma setStartAxis_table:
  "intermediateFrames (setStartAxis G a s) =
     map (\<lambda>j. sample G (setStartAxis G a s) (real j / 20)) [0..<21]"
  by (simp only: setStartAxis_def generateDirectionVectors_fields generateDirectionVectors_sample
      updateOrientationQuaternions_table)

lemma setEndAxis_table:
  "intermediateFrames (setEndAxis G a s) =
     map (\<lambda>j. sample G (setEndAxis G a s) (real j / 20)) [0..<21]"
  by (simp only: setEndAxis_def generateDirectionVectors_fields generateDirectionVectors_sample
      updateOrientationQuaternions_table)

lemma axis_calls_table:
  assumes "intermediateFrames s = map (\<lambda>j. sample G s (real j / 20)) [0..<21]"
  shows "intermediateFrames (foldl (apply_axis_call G) s calls) =
           map (\<lambda>j. sample G (foldl (apply_axis_call G) s calls) (real j / 20)) [0..<21]"
  using assms
proof (induction calls arbitrary: s)
  case Nil
  then show ?case by simp
next
  case (Cons c calls)
  have "intermediateFrames (apply_axis_call G s c) =
          map (\<lambda>j. sample G (apply_axis_call G s c) (real j / 20)) [0..<21]"
    by (cases c) (simp_all only: apply_axis_call.simps setStartAxis_table setEndAxis_table)
  from Cons.IH[OF this] show ?case by simp
qed

lemma table_entries:
  assumes "intermediateFrames s = map (\<lambda>j. sample G s (real j / 20)) [0..<21]"
  shows "length (intermediateFrames s) = 21"
    and "i \<le> 20 \<Longrightarrow> intermediateFrames s ! i = sample G s (real i / 20)"
proof -
  show "length (intermediateFrames s) = 21"
    by (simp add: assms)
  assume "i \<le> 20"
  then have "i < length [0..<21]" by simp
  then have "map (\<lambda>j. sample G s (real j / 20)) [0..<21] ! i = sample G s (real ([0..<21] ! i) / 20)"
    by (rule nth_map)
  moreover have "[0..<21] ! i = i" using \<open>i \<le> 20\<close> by simp
  ultimately show "intermediateFrames s ! i = sample G s (real i / 20)"
    by (simp only: assms)
qed

text \<open>
  Claim C4. After construction and after every sequence of \<open>setStartAxis\<close> and
  \<open>setEndAxis\<close> calls, the table of intermediate frames has 21 entries, entry \<open>i\<close> is the
  SLERP of the current start and end quaternions at \<open>i / 20\<close>, and entries 0 and 20 are
  \<open>sample 0\<close> and \<open>sample 1\<close>: the table is that of the current orientations, never of
  earlier ones.
\<close>

theorem intermediateFrames_never_stale:
  assumes "constructor G h = Inr s0"
  shows "length (intermediateFrames (foldl (apply_axis_call G) s0 calls)) = 21
         \<and> (\<forall>i\<le>20. intermediateFrames (foldl (apply_axis_call G) s0 calls) ! i =
                quat_slerp G (quat (startOrientation (foldl (apply_axis_call G) s0 calls)))
                        (quat (endOrientation (foldl (apply_axis_call G) s0 calls))) (real i / 20))
         \<and> intermediateFrames (foldl (apply_axis_call G) s0 calls) ! 0 =
             sample G (foldl (apply_axis_call G) s0 calls) 0
         \<and> intermediateFrames (foldl (apply_axis_call G) s0 calls) ! 20 =
             sample G (foldl (apply_axis_call G) s0 calls) 1"
proof -
  let ?s = "foldl (apply_axis_call G) s0 calls"
  from assms have "s0 = updateOrientationQuaternions G initial_fields"
    by (cases h) (simp_all add: constructor_def)
  then have "intermediateFrames s0 = map (\<lambda>j. sample G s0 (real j / 20)) [0..<21]"
    by (simp only: updateOrientationQuaternions_table)
  then have t: "intermediateFrames ?s = map (\<lambda>j. sample G ?s (real j / 20)) [0..<21]"
    by (rule axis_calls_table)
  note e = table_entries[OF t]
  have "intermediateFrames ?s ! 0 = sample G ?s 0" using e(2)[of 0] by simp
  moreover have "intermediateFrames ?s ! 20 = sample G ?s 1" using e(2)[of 20] by simp
  ultimately show ?thesis using e by (simp add: sample_def)
qed

text \<open>The theorem for the constructed engine after \<open>setStartAxis([0, 0, 1])\<close> and
  \<open>setEndAxis([0, 3, 4])\<close>, at entries 7 and 20.\<close>

theorem intermediateFrames_never_stale_witness:
  "constructor glMatrix CanvasWithWebGL = Inr engine
   \<and> length (intermediateFrames
        (foldl (apply_axis_call glMatrix) engine [SetStartAxis (0, 0, 1), SetEndAxis (0, 3, 4)])) = 21
   \<and> intermediateFrames
        (foldl (apply_axis_call glMatrix) engine [SetStartAxis (0, 0, 1), SetEndAxis (0, 3, 4)]) ! 7 =
       quat_slerp glMatrix
         (quat (startOrientation
            (foldl (apply_axis_call glMatrix) engine [SetStartAxis (0, 0, 1), SetEndAxis (0, 3, 4)])))
         (quat (endOrientation
            (foldl (apply_axis_call glMatrix) engine [SetStartAxis (0, 0, 1), SetEndAxis (0, 3, 4)])))
         (7 / 20)
   \<and> intermediateFrames
        (foldl (apply_axis_call glMatrix) engine [SetStartAxis (0, 0, 1), SetEndAxis (0, 3, 4)]) ! 20 =
       sample glMatrix
         (foldl (apply_axis_call glMatrix) engine [SetStartAxis (0, 0, 1), SetEndAxis (0, 3, 4)]) 1"
proof -
  let ?S = "foldl (apply_axis_call glMatrix) engine [SetStartAxis (0, 0, 1), SetEndAxis (0, 3, 4)]"
  note T = intermediateFrames_never_stale[OF constructor_engine,
      of "[SetStartAxis (0, 0, 1), SetEndAxis (0, 3, 4)]"]
  from T have l: "length (intermediateFrames ?S) = 21"
    by (rule conjunct1)
  from T have "\<forall>i\<le>20. intermediateFrames ?S ! i =
       quat_slerp glMatrix (quat (startOrientation ?S)) (quat (endOrientation ?S)) (real i / 20)"
    by (rule conjunct1[OF conjunct2])
  then have "7 \<le> (20::nat) \<longrightarrow> intermediateFrames ?S ! 7 =
       quat_slerp glMatrix (quat (startOrientation ?S)) (quat (endOrientation ?S)) (real 7 / 20)"
    by (rule spec)
  moreover have "7 \<le> (20::nat)" and "real 7 = 7"
    by simp_all
  ultimately have e7: "intermediateFrames ?S ! 7 =
       quat_slerp glMatrix (quat (startOrientation ?S)) (quat (endOrientation ?S)) (7 / 20)"
    by (simp only:)
  from T have e20: "intermediateFrames ?S ! 20 = sample glMatrix ?S 1"
    by (rule conjunct2[OF conjunct2[OF conjunct2]])
  show ?thesis
    by (intro conjI constructor_engine l e7 e20)
qed

subsection \<open>The cones of a frame\<close>

lemma render_trail_eq:
  "program s \<Longrightarrow>
   render_trail s i =
     map (\<lambda>j. Cone (intermediateFrames s ! j)
                 (15 / 100 + (real j / real (length (intermediateFrames s))) * (3 / 10)))
       [i..<length (intermediateFrames s)]"
proof (induction s i rule: render_trail.induct)
  case (1 s i)
  show ?case
  proof (cases "i < length (intermediateFrames s)")
    case True
    then have "[i..<length (intermediateFrames s)] = i # [Suc i..<length (intermediateFrames s)]"
      by (simp add: upt_conv_Cons)
    with True "1.IH" "1.prems" show ?thesis
      by (subst render_trail.simps) (simp add: Let_def drawCone_def)
  next
    case False
    then show ?thesis by (subst render_trail.simps) simp
  qed
qed

text \<open>
  Claim C9. In a rendered frame (\<open>render\<close> runs only once \<open>initialize\<close> has set the
  program), if the clock is not Playing and the trail is shown, one cone is drawn per
  entry of the table of intermediate frames, entry \<open>i\<close> of \<open>N\<close> with alpha
  \<open>0.15 + (i / N) * 0.3\<close>, which increases strictly with \<open>i\<close>; otherwise exactly one cone
  is drawn, with alpha 1, at the SLERP of the start and end quaternions at the current
  progress, computed and not read from the table.
\<close>

theorem render_cones_trail_or_sample:
  assumes "program s"
  shows "(showIntermediateFrames s \<and> \<not> isAnimating s \<longrightarrow>
            render_cones G s =
              map (\<lambda>i. Cone (intermediateFrames s ! i)
                          (15 / 100 + (real i / real (length (intermediateFrames s))) * (3 / 10)))
                [0..<length (intermediateFrames s)]
            \<and> (\<forall>i j. i < j \<and> j < length (intermediateFrames s) \<longrightarrow>
                  15 / 100 + (real i / real (length (intermediateFrames s))) * (3 / 10)
                  < 15 / 100 + (real j / real (length (intermediateFrames s))) * (3 / 10)))
         \<and> (\<not> (showIntermediateFrames s \<and> \<not> isAnimating s) \<longrightarrow>
              render_cones G s =
                [Cone (quat_slerp G (quat (startOrientation s)) (quat (endOrientation s))
                         (animationProgress s)) 1])"
proof (intro conjI impI allI)
  assume c: "showIntermediateFrames s \<and> \<not> isAnimating s"
  then show "render_cones G s =
              map (\<lambda>i. Cone (intermediateFrames s ! i)
                          (15 / 100 + (real i / real (length (intermediateFrames s))) * (3 / 10)))
                [0..<length (intermediateFrames s)]"
    using assms by (simp add: render_cones_def render_trail_eq)
next
  fix i j
  assume "i < j \<and> j < length (intermediateFrames s)"
  then have "real i < real j" and "0 < real (length (intermediateFrames s))" by auto
  then have "real i / real (length (intermediateFrames s)) < real j / real (length (intermediateFrames s))"
    by (simp add: divide_strict_right_mono)
  then show "15 / 100 + (real i / real (length (intermediateFrames s))) * (3 / 10)
        < 15 / 100 + (real j / real (length (intermediateFrames s))) * (3 / 10)"
    by simp
next
  assume "\<not> (showIntermediateFrames s \<and> \<not> isAnimating s)"
  then show "render_cones G s =
                [Cone (quat_slerp G (quat (startOrientation s)) (quat (endOrientation s))
                         (animationProgress s)) 1]"
    using assms by (auto simp add: render_cones_def drawCone_def Let_def)
qed

text \<open>The theorem at the first frame after \<open>initialize\<close> (trail of 21 cones) and at
  that engine once started (one opaque cone).\<close>

theorem render_cones_trail_or_sample_witness:
  "program first_frame
   \<and> render_cones glMatrix first_frame =
       map (\<lambda>i. Cone (intermediateFrames first_frame ! i) (15 / 100 + (real i / 21) * (3 / 10)))
         [0..<21]
   \<and> program (startAnimation first_frame)
   \<and> render_cones glMatrix (startAnimation first_frame) =
       [Cone (quat_slerp glMatrix (quat (startOrientation (startAnimation first_frame)))
                (quat (endOrientation (startAnimation first_frame))) 0) 1]"
proof -
  have p: "program first_frame" by simp
  have q: "program (startAnimation first_frame)" by (simp add: startAnimation_def)
  from render_cones_trail_or_sample[OF p, of glMatrix]
    render_cones_trail_or_sample[OF q, of glMatrix] p q
  show ?thesis by simp
qed

subsection \<open>Setting an axis\<close>

text \<open>
  Claim C2, as amended. For every vector \<open>v\<close>, of length zero or not, \<open>setStartAxis v\<close>
  and \<open>setEndAxis v\<close> store \<open>vec3.normalize v\<close> as the axis of their orientation and derive
  both quaternions anew from the stored axes; the engine has no validation and the
  setters cannot fail.
\<close>

theorem setAxis_stores_normalized:
  "axis (startOrientation (setStartAxis G v s)) = vec3_normalize G v
   \<and> quat (startOrientation (setStartAxis G v s)) = quat_rotationTo G upVector (vec3_normalize G v)
   \<and> axis (endOrientation (setStartAxis G v s)) = axis (endOrientation s)
   \<and> quat (endOrientation (setStartAxis G v s)) = quat_rotationTo G upVector (axis (endOrientation s))
   \<and> axis (endOrientation (setEndAxis G v s)) = vec3_normalize G v
   \<and> quat (endOrientation (setEndAxis G v s)) = quat_rotationTo G upVector (vec3_normalize G v)
   \<and> axis (startOrientation (setEndAxis G v s)) = axis (startOrientation s)
   \<and> quat (startOrientation (setEndAxis G v s)) = quat_rotationTo G upVector (axis (startOrientation s))"
  by (simp add: setStartAxis_def setEndAxis_def)

lemma engine_axes [simp]:
  "axis (startOrientation engine) = (0, 1, 0)"
  "axis (endOrientation engine) = (1, 0, 0)"
  by (simp_all add: engine_def initial_fields_def)

text \<open>Claim C2 as stated fails: the zero vector replaces the start axis (0, 1, 0), and
  the end axis (1, 0, 0), of the constructed engine by (0, 0, 0).\<close>

theorem setAxis_accepts_zero:
  "axis (startOrientation engine) = (0, 1, 0)
   \<and> axis (startOrientation (setStartAxis glMatrix (0, 0, 0) engine)) = (0, 0, 0)
   \<and> axis (endOrientation engine) = (1, 0, 0)
   \<and> axis (endOrientation (setEndAxis glMatrix (0, 0, 0) engine)) = (0, 0, 0)"
  by (simp add: setStartAxis_def setEndAxis_def glMatrix_def glm_normalize_def)

subsection \<open>Setting the cone parameters\<close>

lemma generateCone_buffers:
  "coneBuffer (generateCone s) = Some (fst (coneMesh (coneParams s)))"
  "coneNormalBuffer (generateCone s) = Some (fst (snd (coneMesh (coneParams s))))"
  "coneIndexBuffer (generateCone s) = Some (Uint16Array (snd (snd (coneMesh (coneParams s)))))"
  "coneVertexCount (generateCone s) = length (snd (snd (coneMesh (coneParams s))))"
  by (simp_all add: generateCone_def split: prod.splits)

text \<open>
  Claim C8, as amended. For every input, degenerate or not, \<open>setConeParams\<close> stores the
  given parameters over the current ones and rebuilds the three buffers and the index
  count from the stored parameters, unclamped; the engine has no validation and the
  setter cannot fail.
\<close>

theorem setConeParams_rebuilds:
  "coneParams (setConeParams q s) = spread (coneParams s) q
   \<and> coneBuffer (setConeParams q s) = Some (fst (coneMesh (spread (coneParams s) q)))
   \<and> coneNormalBuffer (setConeParams q s) = Some (fst (snd (coneMesh (spread (coneParams s) q))))
   \<and> coneIndexBuffer (setConeParams q s) =
       Some (Uint16Array (snd (snd (coneMesh (spread (coneParams s) q)))))
   \<and> coneVertexCount (setConeParams q s) = length (snd (snd (coneMesh (spread (coneParams s) q))))"
  by (simp add: setConeParams_def generateCone_buffers)

lemma engine_coneParams [simp]:
  "coneParams engine = \<lparr>radius = 1, height = 2, segments = 32\<rparr>"
  "coneIndexBuffer engine = None"
  by (simp_all add: engine_def initial_fields_def updateOrientationQuaternions_def
      generateIntermediateFrames_def Let_def)

lemma generateCone_side_2: "generateCone_side 2 0 [] = [0, 1, 2, 0, 2, 3]"
  by (simp add: generateCone_side.simps)

lemma generateCone_base_2: "generateCone_base 4 2 xs = xs @ [4, 3, 2, 4, 2, 1]"
  by (simp add: generateCone_base.simps)

lemma coneMesh_indices_2: "snd (snd (coneMesh \<lparr>radius = 0, height = - 1, segments = 2\<rparr>)) =
    [0, 1, 2, 0, 2, 3, 4, 3, 2, 4, 2, 1]"
proof -
  have "int (length (fst (generateCone_ring r h 2 a b 0 [x, y, z] [u, v, w]))) div 3 = 4"
    for r h a b x y z u v w
    by (simp add: generateCone_ring_length)
  then show ?thesis
    by (simp add: coneMesh_def Let_def split_beta generateCone_side_2 generateCone_base_2)
qed

text \<open>Claim C8 as stated fails: radius 0, height -1 and 2 segments are stored, and an
  index buffer of four triangles is built from them.\<close>

theorem setConeParams_accepts_degenerate:
  "coneParams engine = \<lparr>radius = 1, height = 2, segments = 32\<rparr>
   \<and> coneIndexBuffer engine = None
   \<and> coneParams (setConeParams \<lparr>radius_opt = Some 0, height_opt = Some (- 1), segments_opt = Some 2\<rparr> engine)
       = \<lparr>radius = 0, height = - 1, segments = 2\<rparr>
   \<and> coneIndexBuffer (setConeParams \<lparr>radius_opt = Some 0, height_opt = Some (- 1), segments_opt = Some 2\<rparr> engine)
       = Some [0, 1, 2, 0, 2, 3, 4, 3, 2, 4, 2, 1]"
  by (simp add: setConeParams_def generateCone_buffers spread_def coneMesh_indices_2 Uint16Array_def)

subsection \<open>Antiparallel axes in exact arithmetic\<close>

text \<open>
  With the implementation of the gl-matrix functions given above and in exact arithmetic,
  the start axis (0, 1, 0) and the end axis (0, -1, 0) give the identity quaternion and
  the half turn about the z axis, and the sample at 1/2 is the quarter turn about the z
  axis, of norm 1. Exact arithmetic has no NaN, so nothing is said here about the
  floating-point evaluation.
\<close>

lemma glm_rotationTo_up_up: "glm_rotationTo (0, 1, 0) (0, 1, 0) = (0, 0, 0, 1)"
  by (simp add: glm_rotationTo_def glm_dot_def)

lemma glm_rotationTo_up_down: "glm_rotationTo (0, 1, 0) (0, - 1, 0) = (0, 0, 1, 0)"
  by (simp add: glm_rotationTo_def glm_dot_def glm_cross_def glm_len_def glm_normalize_def
      glm_setAxisAngle_def Let_def)

lemma glm_slerp_half:
  "glm_slerp (0, 0, 0, 1) (0, 0, 1, 0) (1 / 2) = (0, 0, sqrt 2 / 2, sqrt 2 / 2)"
proof -
  have "sin (pi / 4) = sqrt 2 / 2" by (rule sin_45)
  moreover have "(1 / 2) * (pi / 2) = pi / 4" by simp
  ultimately show ?thesis
    by (simp add: glm_slerp_def Let_def)
qed

lemma antiparallel_axes_exact:
  "quat (startOrientation (setEndAxis glMatrix (0, - 1, 0) (setStartAxis glMatrix (0, 1, 0) engine)))
     = (0, 0, 0, 1)"
  "quat (endOrientation (setEndAxis glMatrix (0, - 1, 0) (setStartAxis glMatrix (0, 1, 0) engine)))
     = (0, 0, 1, 0)"
  "sample glMatrix (setEndAxis glMatrix (0, - 1, 0) (setStartAxis glMatrix (0, 1, 0) engine)) (1 / 2)
     = (0, 0, sqrt 2 / 2, sqrt 2 / 2)"
  "(sqrt 2 / 2) * (sqrt 2 / 2) + (sqrt 2 / 2) * (sqrt 2 / 2) = (1 :: real)"
proof -
  let ?s = "setEndAxis glMatrix (0, - 1, 0) (setStartAxis glMatrix (0, 1, 0) engine)"
  have n: "glm_normalize (0, 1, 0) = (0, 1, 0)" "glm_normalize (0, - 1, 0) = (0, - 1, 0)"
    by (simp_all add: glm_normalize_def)
  show a: "quat (startOrientation ?s) = (0, 0, 0, 1)"
    by (simp add: setEndAxis_def setStartAxis_def glMatrix_def upVector_def n glm_rotationTo_up_up)
  show b: "quat (endOrientation ?s) = (0, 0, 1, 0)"
    by (simp add: setEndAxis_def setStartAxis_def glMatrix_def upVector_def n glm_rotationTo_up_down)
  show "sample glMatrix ?s (1 / 2) = (0, 0, sqrt 2 / 2, sqrt 2 / 2)"
    unfolding sample_def a b by (simp add: glMatrix_def glm_slerp_half)
  show "(sqrt 2 / 2) * (sqrt 2 / 2) + (sqrt 2 / 2) * (sqrt 2 / 2) = (1 :: real)"
    by simp
qed

end
